theory Spec2Isabelle
  imports Complex_Main
begin

section \<open>Python doubles, as far as the alert computation uses them\<close>

text \<open>
  \<^verbatim>\<open>sales / 30\<close> and \<^verbatim>\<open>inventory.quantity / avg_daily_sales\<close> in Part-3.py are Python
  true divisions: the result is the IEEE-754 double nearest to the exact quotient, ties
  going to the even mantissa. A finite double is modelled by its integer mantissa and its
  binary exponent; its value is \<open>mant * 2 ^ expo\<close>. The columns hold 64-bit integers, so
  every quotient formed here lies in the normal range of a double: infinities, NaN,
  subnormal numbers and the exponent bounds do not occur and are not modelled.
\<close>

datatype py_error = TypeError | ZeroDivisionError | KeyError | AttributeError
  | InvalidOperation | IntegrityError | StatementError

datatype double = Double (mant: int) (expo: int)

definition dval :: "double \<Rightarrow> rat" where
  "dval x = of_int (mant x) * 2 powi (expo x)"

text \<open>Position of the leading bit of a positive integer.\<close>

function ilog2 :: "int \<Rightarrow> nat" where
  "ilog2 n = (if n < 2 then 0 else Suc (ilog2 (n div 2)))"
  by pat_completeness auto
termination
  by (relation "measure nat") auto

declare ilog2.simps [simp del]

text \<open>The integer nearest to \<open>n / d\<close> for \<open>0 < d\<close>, a tie going to the even one.\<close>

definition round_half_even :: "int \<Rightarrow> int \<Rightarrow> int" where
  "round_half_even n d =
     (let q = n div d; r = n mod d
      in if 2 * r < d then q
         else if d < 2 * r then q + 1
         else if even q then q else q + 1)"

text \<open>The exponent \<open>e\<close> with \<open>2 ^ e \<le> n / d < 2 ^ (e + 1)\<close>, for positive \<open>n\<close> and \<open>d\<close>.\<close>

definition binade :: "int \<Rightarrow> int \<Rightarrow> int" where
  "binade n d =
     (let k = int (ilog2 n) - int (ilog2 d)
      in if (if 0 \<le> k then d * 2 ^ nat k \<le> n else d \<le> n * 2 ^ nat (- k))
         then k else k - 1)"

text \<open>
  \<open>n / d\<close> rounded to 53 significant bits, for positive \<open>n\<close> and \<open>d\<close>: the quotient is
  scaled so that its integer part has 53 bits, and rounded there.
\<close>

definition round_pos :: "int \<Rightarrow> int \<Rightarrow> double" where
  "round_pos n d =
     (let k = binade n d - 52
      in Double (if 0 \<le> k then round_half_even n (d * 2 ^ nat k)
                 else round_half_even (n * 2 ^ nat (- k)) d) k)"

text \<open>The same for any sign of \<open>n\<close> and \<open>d \<noteq> 0\<close>: rounding is symmetric in the sign.\<close>

definition round_ratio :: "int \<Rightarrow> int \<Rightarrow> double" where
  "round_ratio n d =
     (let n' = (if d < 0 then - n else n); d' = \<bar>d\<bar>
      in if n' = 0 then Double 0 0
         else if 0 < n' then round_pos n' d'
         else Double (- mant (round_pos (- n') d')) (expo (round_pos (- n') d')))"

text \<open>\<^verbatim>\<open>a / b\<close> on two Python ints.\<close>

definition int_truediv :: "int \<Rightarrow> int \<Rightarrow> py_error + double" where
  "int_truediv a b = (if b = 0 then Inl ZeroDivisionError else Inr (round_ratio a b))"

text \<open>\<^verbatim>\<open>float(a)\<close>, the conversion Python applies to an int operand of a float division.\<close>

definition float_of_int :: "int \<Rightarrow> double" where
  "float_of_int a = round_ratio a 1"

text \<open>\<^verbatim>\<open>x / y\<close> on two floats.\<close>

definition float_div :: "double \<Rightarrow> double \<Rightarrow> py_error + double" where
  "float_div x y =
     (if mant y = 0 then Inl ZeroDivisionError
      else let sh = expo x - expo y
           in if 0 \<le> sh then Inr (round_ratio (mant x * 2 ^ nat sh) (mant y))
              else Inr (round_ratio (mant x) (mant y * 2 ^ nat (- sh))))"

text \<open>\<^verbatim>\<open>int(x)\<close> on a float: truncation towards zero.\<close>

definition int_of_float :: "double \<Rightarrow> int" where
  "int_of_float x =
     (if 0 \<le> expo x then mant x * 2 ^ nat (expo x)
      else if 0 \<le> mant x then mant x div 2 ^ nat (- expo x)
      else - ((- mant x) div 2 ^ nat (- expo x)))"

section \<open>Part-3.py: the tables\<close>

text \<open>
  One record per model class. A column that the model class leaves nullable is an
  \<open>option\<close>; a primary key is not. Timestamps are microseconds since the epoch.
\<close>

record Warehouse =
  wh_id :: int
  wh_name :: "string option"
  wh_company_id :: "int option"

record Product =
  pr_id :: int
  pr_name :: "string option"
  pr_sku :: "string option"
  pr_product_type :: "string option"

record Inventory =
  inv_id :: int
  inv_product_id :: "int option"
  inv_warehouse_id :: "int option"
  inv_quantity :: "int option"

record Supplier =
  sup_id :: int
  sup_name :: "string option"
  sup_contact_email :: "string option"

record ProductSupplier =
  ps_product_id :: int
  ps_supplier_id :: int

record InventoryMovement =
  mv_id :: int
  mv_product_id :: "int option"
  mv_warehouse_id :: "int option"
  mv_quantity_change :: "int option"
  mv_reason :: "string option"
  mv_created_at :: "int option"

record database =
  warehouses :: "Warehouse list"
  products :: "Product list"
  inventories :: "Inventory list"
  suppliers :: "Supplier list"
  product_suppliers :: "ProductSupplier list"
  movements :: "InventoryMovement list"

section \<open>Part-3.py: the low-stock endpoint\<close>

type_synonym joined_row = "Inventory \<times> Product \<times> Warehouse \<times> Supplier"

record supplier_ref =
  supplier_id :: int
  supplier_name :: "string option"
  supplier_contact_email :: "string option"

record alert =
  product_id :: int
  product_name :: "string option"
  sku :: "string option"
  warehouse_id :: int
  warehouse_name :: "string option"
  current_stock :: int
  threshold :: int
  days_until_stockout :: int
  supplier :: supplier_ref

record response =
  status :: nat
  alerts :: "alert list"
  total_alerts :: nat

definition THRESHOLDS :: "(string \<times> int) list" where
  "THRESHOLDS = [(''simple'', 20), (''bundle'', 10)]"

text \<open>\<^verbatim>\<open>d.get(key, default)\<close>; the key \<^verbatim>\<open>None\<close> is in no dictionary with string keys.\<close>

definition dict_get :: "(string \<times> 'v) list \<Rightarrow> string option \<Rightarrow> 'v \<Rightarrow> 'v" where
  "dict_get d key dflt =
     (case key of None \<Rightarrow> dflt
      | Some k \<Rightarrow> (case map_of d k of None \<Rightarrow> dflt | Some v \<Rightarrow> v))"

definition threshold_for :: "string option \<Rightarrow> int" where
  "threshold_for product_type = dict_get THRESHOLDS product_type 20"

text \<open>\<^verbatim>\<open>timedelta(days=30)\<close> in microseconds.\<close>

definition timedelta_days :: "int \<Rightarrow> int" where
  "timedelta_days n = n * 86400 * 1000000"

text \<open>
  The four inner joins and the filter on the company. A null never equals anything, so a
  row with a null join column joins nothing. The query has no ORDER BY; the rows are
  listed in nested-loop order of the tables.
\<close>

definition results :: "database \<Rightarrow> int \<Rightarrow> joined_row list" where
  "results db company_id =
     [(i, p, w, s).
        i \<leftarrow> inventories db,
        p \<leftarrow> products db, inv_product_id i = Some (pr_id p),
        w \<leftarrow> warehouses db, inv_warehouse_id i = Some (wh_id w),
        ps \<leftarrow> product_suppliers db, pr_id p = ps_product_id ps,
        s \<leftarrow> suppliers db, sup_id s = ps_supplier_id ps,
        wh_company_id w = Some company_id]"

text \<open>
  The scalar of the sales query: \<open>abs(sum(quantity_change))\<close> over the movements of the
  product at the warehouse with reason \<open>sale\<close> since the given time. SUM skips nulls and
  is null when it has nothing to add.
\<close>

definition sales_query :: "database \<Rightarrow> int \<Rightarrow> int \<Rightarrow> int \<Rightarrow> int option" where
  "sales_query db pid wid since =
     (let changes =
        [q. m \<leftarrow> movements db,
            mv_product_id m = Some pid,
            mv_warehouse_id m = Some wid,
            mv_reason m = Some ''sale'',
            (case mv_created_at m of None \<Rightarrow> False | Some t \<Rightarrow> since \<le> t),
            q \<leftarrow> (case mv_quantity_change m of None \<Rightarrow> [] | Some c \<Rightarrow> [c])]
      in if changes = [] then None else Some \<bar>sum_list changes\<bar>)"

text \<open>\<^verbatim>\<open>int(inventory.quantity / avg_daily_sales)\<close>.\<close>

definition stockout_days :: "int \<Rightarrow> double \<Rightarrow> py_error + int" where
  "stockout_days quantity avg_daily_sales =
     (case float_div (float_of_int quantity) avg_daily_sales of
        Inl e \<Rightarrow> Inl e
      | Inr x \<Rightarrow> Inr (int_of_float x))"

text \<open>
  The body of the loop for one joined row: \<open>Inr None\<close> is \<^verbatim>\<open>continue\<close> or a row that is
  not low, \<open>Inr (Some a)\<close> appends \<open>a\<close>, \<open>Inl\<close> is an exception. Comparing a null
  quantity with the threshold raises TypeError.
\<close>

definition row_alert :: "database \<Rightarrow> int \<Rightarrow> joined_row \<Rightarrow> py_error + alert option" where
  "row_alert db thirty_days_ago row =
     (case row of (inventory, product, warehouse, supp) \<Rightarrow>
        let thr = threshold_for (pr_product_type product);
            sales = sales_query db (pr_id product) (wh_id warehouse) thirty_days_ago
        in case sales of
             None \<Rightarrow> Inr None
           | Some sold \<Rightarrow>
               if sold = 0 then Inr None
               else (case int_truediv sold 30 of
                       Inl e \<Rightarrow> Inl e
                     | Inr avg_daily_sales \<Rightarrow>
                         (case inv_quantity inventory of
                            None \<Rightarrow> Inl TypeError
                          | Some quantity \<Rightarrow>
                              if quantity \<le> thr
                              then (case stockout_days quantity avg_daily_sales of
                                      Inl e \<Rightarrow> Inl e
                                    | Inr days \<Rightarrow>
                                        Inr (Some \<lparr>product_id = pr_id product,
                                                   product_name = pr_name product,
                                                   sku = pr_sku product,
                                                   warehouse_id = wh_id warehouse,
                                                   warehouse_name = wh_name warehouse,
                                                   current_stock = quantity,
                                                   threshold = thr,
                                                   days_until_stockout = days,
                                                   supplier =
                                                     \<lparr>supplier_id = sup_id supp,
                                                      supplier_name = sup_name supp,
                                                      supplier_contact_email =
                                                        sup_contact_email supp\<rparr>\<rparr>))
                              else Inr None)))"

text \<open>The \<^verbatim>\<open>for\<close> loop over the joined rows, appending to \<^verbatim>\<open>alerts\<close>.\<close>

fun collect_alerts :: "database \<Rightarrow> int \<Rightarrow> joined_row list \<Rightarrow> alert list \<Rightarrow> py_error + alert list" where
  "collect_alerts db thirty_days_ago [] acc = Inr acc"
| "collect_alerts db thirty_days_ago (row # rest) acc =
     (case row_alert db thirty_days_ago row of
        Inl e \<Rightarrow> Inl e
      | Inr None \<Rightarrow> collect_alerts db thirty_days_ago rest acc
      | Inr (Some a) \<Rightarrow> collect_alerts db thirty_days_ago rest (acc @ [a]))"

text \<open>
  The endpoint, given the database and the clock. An exception leaves the handler and
  the framework answers 500; otherwise the answer is 200 with the alerts and their count.
\<close>

definition low_stock_alerts :: "database \<Rightarrow> int \<Rightarrow> int \<Rightarrow> py_error + response" where
  "low_stock_alerts db utcnow company_id =
     (let thirty_days_ago = utcnow - timedelta_days 30
      in case collect_alerts db thirty_days_ago (results db company_id) [] of
           Inl e \<Rightarrow> Inl e
         | Inr found \<Rightarrow> Inr \<lparr>status = 200, alerts = found, total_alerts = length found\<rparr>)"

section \<open>Reading the output of the endpoint\<close>

text \<open>What the loop body appends for one joined row: at most one alert.\<close>

definition emitted :: "database \<Rightarrow> int \<Rightarrow> joined_row \<Rightarrow> alert list" where
  "emitted db t row = (case row_alert db t row of Inr (Some a) \<Rightarrow> [a] | _ \<Rightarrow> [])"

text \<open>
  A joined row qualifies for an alert when its product has sold in the window at its
  warehouse and its stock is at most the threshold of the product.
\<close>

definition qualifies :: "database \<Rightarrow> int \<Rightarrow> joined_row \<Rightarrow> bool" where
  "qualifies db t row =
     (case row of (i, p, w, s) \<Rightarrow>
        (case sales_query db (pr_id p) (wh_id w) t of None \<Rightarrow> False | Some sold \<Rightarrow> sold \<noteq> 0) \<and>
        (case inv_quantity i of None \<Rightarrow> False
         | Some q \<Rightarrow> q \<le> threshold_for (pr_product_type p)))"

text \<open>The product, the warehouse and the supplier an alert names, and those of a joined row.\<close>

definition alert_key :: "alert \<Rightarrow> int \<times> int \<times> supplier_ref" where
  "alert_key a = (product_id a, warehouse_id a, supplier a)"

definition row_key :: "joined_row \<Rightarrow> int \<times> int \<times> supplier_ref" where
  "row_key row =
     (case row of (i, p, w, s) \<Rightarrow>
        (pr_id p, wh_id w,
         \<lparr>supplier_id = sup_id s, supplier_name = sup_name s,
          supplier_contact_email = sup_contact_email s\<rparr>))"

text \<open>
  The quotients \<open>30 * q / s\<close> that are integers are the ones where a rounding error could
  move the truncated result; for a stock \<open>q\<close> of at most 20 they are checked by evaluation.
  \<open>exact_ok q s\<close> says that the computed day count for stock \<open>q\<close> and sales \<open>s\<close> is
  \<open>30 * q div s\<close>; \<open>exact_divisors_ok q\<close> checks it for every divisor \<open>d\<close> of \<open>30 * q\<close> up
  to 24 and for its codivisor \<open>30 * q div d\<close>, which covers every divisor of a number up
  to 600.
\<close>

definition exact_ok :: "int \<Rightarrow> int \<Rightarrow> bool" where
  "exact_ok q s \<longleftrightarrow> stockout_days q (round_ratio s 30) = Inr (30 * q div s)"

definition exact_divisors_ok :: "int \<Rightarrow> bool" where
  "exact_divisors_ok q =
     list_all (\<lambda>d. \<not> d dvd 30 * q \<or> (exact_ok q d \<and> exact_ok q (30 * q div d))) [1..24]"

section \<open>A sample database\<close>

text \<open>
  One company (7) with one warehouse; product 1 is linked to two suppliers, product 2 to
  none, product 3 sold only before the window, product 4 is above its threshold, product 5
  is exactly at its threshold.
\<close>

definition demo_now :: int where "demo_now = 1700000000000000"

definition demo_db :: database where
  "demo_db = \<lparr>
     warehouses =
       [\<lparr>wh_id = 1, wh_name = Some ''Main'', wh_company_id = Some 7\<rparr>,
        \<lparr>wh_id = 2, wh_name = Some ''Other'', wh_company_id = Some 8\<rparr>],
     products =
       [\<lparr>pr_id = 1, pr_name = Some ''Widget'', pr_sku = Some ''W-1'', pr_product_type = Some ''simple''\<rparr>,
        \<lparr>pr_id = 2, pr_name = Some ''Kit'', pr_sku = Some ''K-2'', pr_product_type = Some ''bundle''\<rparr>,
        \<lparr>pr_id = 3, pr_name = Some ''Spare'', pr_sku = Some ''S-3'', pr_product_type = None\<rparr>,
        \<lparr>pr_id = 4, pr_name = Some ''Gear'', pr_sku = Some ''G-4'', pr_product_type = Some ''simple''\<rparr>,
        \<lparr>pr_id = 5, pr_name = Some ''Bolt'', pr_sku = Some ''B-5'', pr_product_type = Some ''simple''\<rparr>],
     inventories =
       [\<lparr>inv_id = 1, inv_product_id = Some 1, inv_warehouse_id = Some 1, inv_quantity = Some 15\<rparr>,
        \<lparr>inv_id = 2, inv_product_id = Some 2, inv_warehouse_id = Some 1, inv_quantity = Some 5\<rparr>,
        \<lparr>inv_id = 3, inv_product_id = Some 3, inv_warehouse_id = Some 1, inv_quantity = Some 0\<rparr>,
        \<lparr>inv_id = 4, inv_product_id = Some 4, inv_warehouse_id = Some 1, inv_quantity = Some 25\<rparr>,
        \<lparr>inv_id = 5, inv_product_id = Some 5, inv_warehouse_id = Some 1, inv_quantity = Some 20\<rparr>],
     suppliers =
       [\<lparr>sup_id = 1, sup_name = Some ''Acme'', sup_contact_email = Some ''a@acme.test''\<rparr>,
        \<lparr>sup_id = 2, sup_name = Some ''Bolt Co'', sup_contact_email = None\<rparr>],
     product_suppliers =
       [\<lparr>ps_product_id = 1, ps_supplier_id = 1\<rparr>,
        \<lparr>ps_product_id = 1, ps_supplier_id = 2\<rparr>,
        \<lparr>ps_product_id = 3, ps_supplier_id = 1\<rparr>,
        \<lparr>ps_product_id = 4, ps_supplier_id = 1\<rparr>,
        \<lparr>ps_product_id = 5, ps_supplier_id = 2\<rparr>],
     movements =
       [\<lparr>mv_id = 1, mv_product_id = Some 1, mv_warehouse_id = Some 1, mv_quantity_change = Some (- 60),
         mv_reason = Some ''sale'', mv_created_at = Some 1699990000000000\<rparr>,
        \<lparr>mv_id = 2, mv_product_id = Some 2, mv_warehouse_id = Some 1, mv_quantity_change = Some (- 10),
         mv_reason = Some ''sale'', mv_created_at = Some 1699990000000000\<rparr>,
        \<lparr>mv_id = 3, mv_product_id = Some 3, mv_warehouse_id = Some 1, mv_quantity_change = Some (- 5),
         mv_reason = Some ''sale'', mv_created_at = Some 1690000000000000\<rparr>,
        \<lparr>mv_id = 4, mv_product_id = Some 4, mv_warehouse_id = Some 1, mv_quantity_change = Some (- 30),
         mv_reason = Some ''sale'', mv_created_at = Some 1699990000000000\<rparr>,
        \<lparr>mv_id = 5, mv_product_id = Some 5, mv_warehouse_id = Some 1, mv_quantity_change = Some (- 600),
         mv_reason = Some ''sale'', mv_created_at = Some 1699990000000000\<rparr>,
        \<lparr>mv_id = 6, mv_product_id = Some 1, mv_warehouse_id = Some 1, mv_quantity_change = Some 100,
         mv_reason = Some ''restock'', mv_created_at = Some 1699990000000000\<rparr>]\<rparr>"

definition demo_supplier1 :: supplier_ref where
  "demo_supplier1 = \<lparr>supplier_id = 1, supplier_name = Some ''Acme'',
     supplier_contact_email = Some ''a@acme.test''\<rparr>"

definition demo_supplier2 :: supplier_ref where
  "demo_supplier2 = \<lparr>supplier_id = 2, supplier_name = Some ''Bolt Co'',
     supplier_contact_email = None\<rparr>"

definition demo_alert :: "supplier_ref \<Rightarrow> alert" where
  "demo_alert s = \<lparr>product_id = 1, product_name = Some ''Widget'', sku = Some ''W-1'',
     warehouse_id = 1, warehouse_name = Some ''Main'', current_stock = 15, threshold = 20,
     days_until_stockout = 7, supplier = s\<rparr>"

definition demo_bolt_alert :: alert where
  "demo_bolt_alert = \<lparr>product_id = 5, product_name = Some ''Bolt'', sku = Some ''B-5'',
     warehouse_id = 1, warehouse_name = Some ''Main'', current_stock = 20, threshold = 20,
     days_until_stockout = 1, supplier = demo_supplier2\<rparr>"

definition demo_result :: response where
  "demo_result = \<lparr>status = 200,
     alerts = [demo_alert demo_supplier1, demo_alert demo_supplier2, demo_bolt_alert],
     total_alerts = 3\<rparr>"

text \<open>
  The same database with a single inventory row: product 5, which sold 600 in the window,
  is out of stock at warehouse 1.
\<close>

definition demo_sold_out_db :: database where
  "demo_sold_out_db = demo_db\<lparr>inventories :=
     [\<lparr>inv_id = 5, inv_product_id = Some 5, inv_warehouse_id = Some 1, inv_quantity = Some 0\<rparr>]\<rparr>"

definition demo_sold_out_alert :: alert where
  "demo_sold_out_alert = \<lparr>product_id = 5, product_name = Some ''Bolt'', sku = Some ''B-5'',
     warehouse_id = 1, warehouse_name = Some ''Main'', current_stock = 0, threshold = 20,
     days_until_stockout = 0, supplier = demo_supplier2\<rparr>"

section \<open>Part-1.py: request bodies\<close>

text \<open>
  What \<^verbatim>\<open>request.get_json()\<close> returns: a parsed JSON value. An object is the list of its
  members, read by key; a float keeps its literal, which nothing here interprets.
\<close>

datatype json = JNull | JBool bool | JInt int | JFloat string | JStr string
  | JArr "json list" | JObj "(string \<times> json) list"

text \<open>
  \<^verbatim>\<open>key in data\<close>: key membership on a dict, element membership on a list, substring
  test on a string, TypeError on anything else.
\<close>

fun starts_with :: "string \<Rightarrow> string \<Rightarrow> bool" where
  "starts_with [] s = True"
| "starts_with (c # cs) [] = False"
| "starts_with (c # cs) (d # ds) = (c = d \<and> starts_with cs ds)"

fun substring_of :: "string \<Rightarrow> string \<Rightarrow> bool" where
  "substring_of t [] = (t = [])"
| "substring_of t (d # ds) = (starts_with t (d # ds) \<or> substring_of t ds)"

fun py_contains :: "string \<Rightarrow> json \<Rightarrow> py_error + bool" where
  "py_contains key (JObj kv) = Inr (map_of kv key \<noteq> None)"
| "py_contains key (JArr xs) = Inr (JStr key \<in> set xs)"
| "py_contains key (JStr s) = Inr (substring_of key s)"
| "py_contains key v = Inl TypeError"

text \<open>
  \<^verbatim>\<open>data[key]\<close> and \<^verbatim>\<open>data.get(key)\<close> with a string key.
\<close>

fun py_getitem :: "json \<Rightarrow> string \<Rightarrow> py_error + json" where
  "py_getitem (JObj kv) key = (case map_of kv key of None \<Rightarrow> Inl KeyError | Some v \<Rightarrow> Inr v)"
| "py_getitem v key = Inl TypeError"

fun py_get :: "json \<Rightarrow> string \<Rightarrow> py_error + json option" where
  "py_get (JObj kv) key = Inr (map_of kv key)"
| "py_get v key = Inl AttributeError"

section \<open>Part-1.py: the tables and the database driver\<close>

text \<open>
  The two model classes; only \<open>quantity\<close> is nullable.
\<close>

record ProductRow =
  prd_id :: int
  prd_name :: string
  prd_sku :: string
  prd_price :: rat

record InventoryRow =
  ivr_id :: int
  ivr_product_id :: int
  ivr_warehouse_id :: int
  ivr_quantity :: "int option"

record storage =
  product_rows :: "ProductRow list"
  inventory_rows :: "InventoryRow list"

text \<open>
  What a column receives for a JSON value: the driver refuses it (an exception), or it is
  null, or it is a value of the column type. A string goes to a String column and an integer
  to an Integer column as they are, and null as null; how SQLAlchemy and SQLite treat any
  other value, and whether \<^verbatim>\<open>Decimal(str(v))\<close> accepts a price, is left to a parameter.
\<close>

datatype 'a bound = Refused | Null | Val 'a

record driver =
  to_decimal :: "json \<Rightarrow> rat option"
  bind_text :: "json \<Rightarrow> string bound"
  bind_int :: "json \<Rightarrow> int bound"

definition text_param :: "driver \<Rightarrow> json \<Rightarrow> string bound" where
  "text_param drv v = (case v of JStr s \<Rightarrow> Val s | JNull \<Rightarrow> Null | _ \<Rightarrow> bind_text drv v)"

definition int_param :: "driver \<Rightarrow> json \<Rightarrow> int bound" where
  "int_param drv v = (case v of JInt n \<Rightarrow> Val n | JNull \<Rightarrow> Null | _ \<Rightarrow> bind_int drv v)"

text \<open>
  \<^verbatim>\<open>data.get('initial_quantity', 0)\<close> as the quantity column receives it.
\<close>

definition quantity_param :: "driver \<Rightarrow> json option \<Rightarrow> int bound" where
  "quantity_param drv q =
     (case q of None \<Rightarrow> Val 0 | Some (JInt n) \<Rightarrow> Val n | Some v \<Rightarrow> bind_int drv v)"

text \<open>
  The key SQLite gives a new row of a table with an integer primary key: one more than
  the largest key in use, 1 in an empty table.
\<close>

fun next_id :: "int list \<Rightarrow> int" where
  "next_id [] = 1"
| "next_id (x # xs) = fold max xs x + 1"

section \<open>Part-1.py: create_product\<close>

text \<open>
  The answers of the handler. An exception raised outside the \<^verbatim>\<open>try\<close> block leaves the
  handler and the framework answers 500.
\<close>

datatype reply = Created int | FieldRequired string | SkuExists
  | ServerError py_error | Unhandled py_error

fun status_code :: "reply \<Rightarrow> nat" where
  "status_code (Created pid) = 201"
| "status_code (FieldRequired f) = 400"
| "status_code SkuExists = 409"
| "status_code (ServerError e) = 500"
| "status_code (Unhandled e) = 500"

definition required_fields :: "string list" where
  "required_fields = [''name'', ''sku'', ''price'', ''warehouse_id'']"

text \<open>
  The validation loop: the first required field that is not in the body, if any.
\<close>

fun missing_field :: "json \<Rightarrow> string list \<Rightarrow> py_error + string option" where
  "missing_field data [] = Inr None"
| "missing_field data (field # rest) =
     (case py_contains field data of
        Inl e \<Rightarrow> Inl e
      | Inr False \<Rightarrow> Inr (Some field)
      | Inr True \<Rightarrow> missing_field data rest)"

text \<open>
  \<^verbatim>\<open>Product.query.filter_by(sku=...).first()\<close>; a null compares as \<open>IS NULL\<close>, which no row
  of a NOT NULL column satisfies.
\<close>

definition find_by_sku :: "driver \<Rightarrow> storage \<Rightarrow> json \<Rightarrow> py_error + ProductRow option" where
  "find_by_sku drv st v =
     (case text_param drv v of
        Refused \<Rightarrow> Inl StatementError
      | Null \<Rightarrow> Inr None
      | Val s \<Rightarrow> Inr (find (\<lambda>p. prd_sku p = s) (product_rows st)))"

text \<open>
  The insert of the product at \<^verbatim>\<open>flush\<close> and of the inventory row at \<^verbatim>\<open>commit\<close>, with the
  NOT NULL and UNIQUE constraints of the columns.
\<close>

definition flush_product :: "driver \<Rightarrow> storage \<Rightarrow> json \<Rightarrow> json \<Rightarrow> rat \<Rightarrow> py_error + ProductRow" where
  "flush_product drv st name_v sku_v price =
     (case text_param drv name_v of
        Refused \<Rightarrow> Inl StatementError
      | Null \<Rightarrow> Inl IntegrityError
      | Val name \<Rightarrow>
          (case text_param drv sku_v of
             Refused \<Rightarrow> Inl StatementError
           | Null \<Rightarrow> Inl IntegrityError
           | Val s \<Rightarrow>
               if s \<in> set (map prd_sku (product_rows st)) then Inl IntegrityError
               else Inr \<lparr>prd_id = next_id (map prd_id (product_rows st)),
                         prd_name = name, prd_sku = s, prd_price = price\<rparr>))"

definition commit_inventory :: "driver \<Rightarrow> storage \<Rightarrow> int \<Rightarrow> json \<Rightarrow> json option \<Rightarrow> py_error + InventoryRow" where
  "commit_inventory drv st pid warehouse_v quantity_v =
     (case int_param drv warehouse_v of
        Refused \<Rightarrow> Inl StatementError
      | Null \<Rightarrow> Inl IntegrityError
      | Val wid \<Rightarrow>
          (case quantity_param drv quantity_v of
             Refused \<Rightarrow> Inl StatementError
           | Null \<Rightarrow> Inr \<lparr>ivr_id = next_id (map ivr_id (inventory_rows st)),
                          ivr_product_id = pid, ivr_warehouse_id = wid, ivr_quantity = None\<rparr>
           | Val q \<Rightarrow> Inr \<lparr>ivr_id = next_id (map ivr_id (inventory_rows st)),
                           ivr_product_id = pid, ivr_warehouse_id = wid, ivr_quantity = Some q\<rparr>))"

text \<open>
  The body of the \<^verbatim>\<open>try\<close> block: the new product id and the storage after the commit, or
  the exception.
\<close>

definition try_insert :: "driver \<Rightarrow> json \<Rightarrow> storage \<Rightarrow> py_error + int \<times> storage" where
  "try_insert drv data st =
     (case py_getitem data ''name'' of Inl e \<Rightarrow> Inl e | Inr name_v \<Rightarrow>
      case py_getitem data ''sku'' of Inl e \<Rightarrow> Inl e | Inr sku_v \<Rightarrow>
      case py_getitem data ''price'' of Inl e \<Rightarrow> Inl e | Inr price_v \<Rightarrow>
      case to_decimal drv price_v of None \<Rightarrow> Inl InvalidOperation | Some price \<Rightarrow>
      case flush_product drv st name_v sku_v price of Inl e \<Rightarrow> Inl e | Inr product \<Rightarrow>
      case py_getitem data ''warehouse_id'' of Inl e \<Rightarrow> Inl e | Inr warehouse_v \<Rightarrow>
      case py_get data ''initial_quantity'' of Inl e \<Rightarrow> Inl e | Inr quantity_v \<Rightarrow>
      case commit_inventory drv st (prd_id product) warehouse_v quantity_v of
        Inl e \<Rightarrow> Inl e
      | Inr inventory \<Rightarrow>
          Inr (prd_id product,
               \<lparr>product_rows = product_rows st @ [product],
                inventory_rows = inventory_rows st @ [inventory]\<rparr>))"

text \<open>
  The handler: the answer and the storage it leaves. After an exception in the \<^verbatim>\<open>try\<close>
  block the session is rolled back, so the storage is the one before.
\<close>

definition create_product :: "driver \<Rightarrow> json \<Rightarrow> storage \<Rightarrow> reply \<times> storage" where
  "create_product drv data st =
     (case missing_field data required_fields of
        Inl e \<Rightarrow> (Unhandled e, st)
      | Inr (Some field) \<Rightarrow> (FieldRequired field, st)
      | Inr None \<Rightarrow>
          (case py_getitem data ''sku'' of
             Inl e \<Rightarrow> (Unhandled e, st)
           | Inr sku_v \<Rightarrow>
               (case find_by_sku drv st sku_v of
                  Inl e \<Rightarrow> (Unhandled e, st)
                | Inr (Some existing) \<Rightarrow> (SkuExists, st)
                | Inr None \<Rightarrow>
                    (case try_insert drv data st of
                       Inl e \<Rightarrow> (ServerError e, st)
                     | Inr (pid, st') \<Rightarrow> (Created pid, st')))))"

text \<open>
  A JSON object that has all four required keys.
\<close>

definition has_required :: "(string \<times> json) list \<Rightarrow> bool" where
  "has_required kv \<longleftrightarrow> (\<forall>f\<in>set required_fields. map_of kv f \<noteq> None)"

section \<open>Sample requests\<close>

text \<open>
  A driver that takes integer prices and refuses every value it is asked about, a storage
  with one product, and four request bodies.
\<close>

definition demo_driver :: driver where
  "demo_driver = \<lparr>
     to_decimal = (\<lambda>v. case v of JInt n \<Rightarrow> Some (of_int n) | _ \<Rightarrow> None),
     bind_text = (\<lambda>v. Refused),
     bind_int = (\<lambda>v. Refused)\<rparr>"

definition demo_product :: ProductRow where
  "demo_product = \<lparr>prd_id = 1, prd_name = ''Widget'', prd_sku = ''W-1'', prd_price = 10\<rparr>"

definition demo_storage :: storage where
  "demo_storage = \<lparr>
     product_rows = [demo_product],
     inventory_rows = [\<lparr>ivr_id = 1, ivr_product_id = 1, ivr_warehouse_id = 1, ivr_quantity = Some 4\<rparr>]\<rparr>"



definition demo_new_request :: "(string \<times> json) list" where
  "demo_new_request =
     [(''name'', JStr ''Gear''), (''sku'', JStr ''G-2''), (''price'', JInt 5),
      (''warehouse_id'', JInt 1)]"

definition demo_null_request :: "(string \<times> json) list" where
  "demo_null_request =
     [(''name'', JNull), (''sku'', JStr ''''), (''price'', JNull), (''warehouse_id'', JNull)]"

definition demo_created_storage :: storage where
  "demo_created_storage = \<lparr>
     product_rows =
       [demo_product, \<lparr>prd_id = 2, prd_name = ''Gear'', prd_sku = ''G-2'', prd_price = 5\<rparr>],
     inventory_rows =
       [\<lparr>ivr_id = 1, ivr_product_id = 1, ivr_warehouse_id = 1, ivr_quantity = Some 4\<rparr>,
        \<lparr>ivr_id = 2, ivr_product_id = 2, ivr_warehouse_id = 1, ivr_quantity = Some 0\<rparr>]\<rparr>"

text \<open>
  The storage this program builds: the empty tables after \<^verbatim>\<open>db.create_all()\<close>, then one
  call of the handler for each request of a history, each with the driver it met.
\<close>

definition empty_storage :: storage where
  "empty_storage = \<lparr>product_rows = [], inventory_rows = []\<rparr>"

fun replay :: "(driver \<times> json) list \<Rightarrow> storage \<Rightarrow> storage" where
  "replay [] st = st"
| "replay ((drv, data) # rest) st = replay rest (snd (create_product drv data st))"

definition demo_first_request :: "(string \<times> json) list" where
  "demo_first_request =
     [(''name'', JStr ''Widget''), (''sku'', JStr ''W-1''), (''price'', JInt 10),
      (''warehouse_id'', JInt 1), (''initial_quantity'', JInt 4)]"

section \<open>Threshold policy\<close>

text \<open>
  C4. The threshold is 20 for the type \<open>simple\<close>, 10 for \<open>bundle\<close>, and 20 for every other
  type, a missing type included.
\<close>

theorem threshold_for_lookup:
  "threshold_for (Some ''simple'') = 20 \<and> threshold_for (Some ''bundle'') = 10 \<and>
   (\<forall>pt. pt \<noteq> Some ''simple'' \<and> pt \<noteq> Some ''bundle'' \<longrightarrow> threshold_for pt = 20)"
  by (auto simp: threshold_for_def dict_get_def THRESHOLDS_def split: option.splits if_splits)

theorem threshold_for_lookup_witness:
  "threshold_for None = 20 \<and> threshold_for (Some ''kit'') = 20"
  using threshold_for_lookup by simp

section \<open>The loop and the join\<close>

lemma collect_alerts_emitted:
  "collect_alerts db t rows acc = Inr out \<Longrightarrow> out = acc @ concat (map (emitted db t) rows)"
proof (induction rows arbitrary: acc)
  case Nil
  then show ?case by simp
next
  case (Cons row rest)
  show ?case
  proof (cases "row_alert db t row")
    case (Inl e)
    with Cons.prems show ?thesis by simp
  next
    case (Inr r)
    show ?thesis
    proof (cases r)
      case None
      with Inr Cons.prems have "collect_alerts db t rest acc = Inr out" by simp
      from Cons.IH[OF this] Inr None show ?thesis by (simp add: emitted_def)
    next
      case (Some a)
      with Inr Cons.prems have "collect_alerts db t rest (acc @ [a]) = Inr out" by simp
      from Cons.IH[OF this] Inr Some show ?thesis by (simp add: emitted_def)
    qed
  qed
qed

lemma collect_alerts_no_error:
  "collect_alerts db t rows acc = Inr out \<Longrightarrow> row \<in> set rows \<Longrightarrow> \<exists>r. row_alert db t row = Inr r"
  by (induction rows arbitrary: acc) (auto split: sum.splits option.splits)

lemma low_stock_alerts_emitted:
  assumes "low_stock_alerts db now cid = Inr resp"
  shows "alerts resp = concat (map (emitted db (now - timedelta_days 30)) (results db cid))"
    and "status resp = 200" and "total_alerts resp = length (alerts resp)"
  using assms collect_alerts_emitted[of db "now - timedelta_days 30" "results db cid" "[]"]
  by (auto simp: low_stock_alerts_def Let_def split: sum.splits)

lemma row_alert_Some:
  assumes "row_alert db t (i, p, w, s) = Inr (Some a)"
  shows "\<exists>sold. sales_query db (pr_id p) (wh_id w) t = Some sold \<and> sold \<noteq> 0 \<and>
           inv_quantity i = Some (current_stock a) \<and>
           current_stock a \<le> threshold a \<and>
           threshold a = threshold_for (pr_product_type p) \<and>
           product_id a = pr_id p \<and> warehouse_id a = wh_id w \<and>
           supplier a = \<lparr>supplier_id = sup_id s, supplier_name = sup_name s,
                          supplier_contact_email = sup_contact_email s\<rparr> \<and>
           stockout_days (current_stock a) (round_ratio sold 30) = Inr (days_until_stockout a)"
  using assms
  by (auto simp: row_alert_def Let_def int_truediv_def split: option.splits if_splits sum.splits)

lemma alert_origin:
  assumes "low_stock_alerts db now cid = Inr resp" and "a \<in> set (alerts resp)"
  shows "\<exists>i p w s. (i, p, w, s) \<in> set (results db cid) \<and>
           row_alert db (now - timedelta_days 30) (i, p, w, s) = Inr (Some a)"
proof -
  from assms obtain row where row: "row \<in> set (results db cid)"
      and a: "a \<in> set (emitted db (now - timedelta_days 30) row)"
    by (auto simp: low_stock_alerts_emitted(1))
  from a have "row_alert db (now - timedelta_days 30) row = Inr (Some a)"
    by (auto simp: emitted_def split: sum.splits option.splits)
  with row show ?thesis by (cases row rule: prod_cases4) auto
qed

lemma results_member:
  "(i, p, w, s) \<in> set (results db cid) \<longleftrightarrow>
     i \<in> set (inventories db) \<and> p \<in> set (products db) \<and> inv_product_id i = Some (pr_id p) \<and>
     w \<in> set (warehouses db) \<and> inv_warehouse_id i = Some (wh_id w) \<and>
     (\<exists>ps \<in> set (product_suppliers db). pr_id p = ps_product_id ps \<and>
        s \<in> set (suppliers db) \<and> sup_id s = ps_supplier_id ps) \<and>
     wh_company_id w = Some cid"
  by (auto simp: results_def)

lemma emitted_key:
  assumes "row_alert db t row = Inr r"
  shows "map alert_key (emitted db t row) = (if qualifies db t row then [row_key row] else [])"
  using assms
  by (cases row rule: prod_cases4)
     (auto simp: emitted_def qualifies_def row_key_def alert_key_def row_alert_def Let_def
        int_truediv_def split: option.splits if_splits sum.splits)

lemma concat_map_filter:
  "(\<And>x. x \<in> set xs \<Longrightarrow> map k (f x) = (if P x then [g x] else [])) \<Longrightarrow>
   map k (concat (map f xs)) = map g (filter P xs)"
  by (induction xs) auto

section \<open>The endpoint on the sample database\<close>

lemmas float_eval = stockout_days_def float_of_int_def int_of_float_def float_div_def
  int_truediv_def round_ratio_def round_pos_def binade_def round_half_even_def ilog2.simps Let_def

lemma demo_results:
  "map (\<lambda>(i, p, w, s). (inv_id i, pr_id p, wh_id w, sup_id s)) (results demo_db 7) =
     [(1, 1, 1, 1), (1, 1, 1, 2), (3, 3, 1, 1), (4, 4, 1, 1), (5, 5, 1, 2)]"
  by (simp add: results_def demo_db_def)

lemma demo_response:
  "low_stock_alerts demo_db demo_now 7 =
     Inr \<lparr>status = 200,
          alerts = [demo_alert demo_supplier1, demo_alert demo_supplier2,
            \<lparr>product_id = 5, product_name = Some ''Bolt'', sku = Some ''B-5'',
             warehouse_id = 1, warehouse_name = Some ''Main'', current_stock = 20, threshold = 20,
             days_until_stockout = 1, supplier = demo_supplier2\<rparr>],
          total_alerts = 3\<rparr>"
  by (simp add: low_stock_alerts_def results_def demo_db_def demo_now_def timedelta_days_def
      row_alert_def sales_query_def threshold_for_def dict_get_def THRESHOLDS_def
      demo_alert_def demo_supplier1_def demo_supplier2_def float_eval)

lemma demo_result_eq: "low_stock_alerts demo_db demo_now 7 = Inr demo_result"
  by (simp add: demo_response demo_result_def demo_bolt_alert_def)

lemma demo_sales:
  "sales_query demo_db 1 1 (demo_now - timedelta_days 30) = Some 60"
  "sales_query demo_db 2 1 (demo_now - timedelta_days 30) = Some 10"
  "sales_query demo_db 3 1 (demo_now - timedelta_days 30) = None"
  by (simp_all add: sales_query_def demo_db_def demo_now_def timedelta_days_def)

section \<open>Alerts and suppliers\<close>

text \<open>
  C1, as the specification states it, fails: the endpoint answers with two alerts for
  product 1 at warehouse 1, one for each of its two suppliers, and each alert carries a
  single supplier.
\<close>

theorem two_suppliers_two_alerts:
  "low_stock_alerts demo_db demo_now 7 =
     Inr \<lparr>status = 200,
          alerts = [demo_alert demo_supplier1, demo_alert demo_supplier2, demo_bolt_alert],
          total_alerts = 3\<rparr> \<and>
   product_id (demo_alert demo_supplier1) = product_id (demo_alert demo_supplier2) \<and>
   warehouse_id (demo_alert demo_supplier1) = warehouse_id (demo_alert demo_supplier2) \<and>
   demo_alert demo_supplier1 \<noteq> demo_alert demo_supplier2"
  using demo_result_eq
  by (simp add: demo_result_def demo_alert_def demo_supplier1_def demo_supplier2_def)

text \<open>
  C1 (amended). The endpoint emits exactly one alert for every joined row (inventory, product,
  warehouse, supplier) that qualifies, in the order of the rows, and the alert carries the
  supplier of that row.
\<close>

theorem one_alert_per_joined_row:
  assumes "low_stock_alerts db now cid = Inr resp"
  shows "map alert_key (alerts resp) =
         map row_key (filter (qualifies db (now - timedelta_days 30)) (results db cid))"
proof -
  let ?t = "now - timedelta_days 30"
  from assms obtain found where found: "collect_alerts db ?t (results db cid) [] = Inr found"
    by (auto simp: low_stock_alerts_def Let_def split: sum.splits)
  have "map alert_key (concat (map (emitted db ?t) (results db cid))) =
        map row_key (filter (qualifies db ?t) (results db cid))"
  proof (rule concat_map_filter)
    fix row assume "row \<in> set (results db cid)"
    with collect_alerts_no_error[OF found] obtain r where "row_alert db ?t row = Inr r" by blast
    then show "map alert_key (emitted db ?t row) = (if qualifies db ?t row then [row_key row] else [])"
      by (rule emitted_key)
  qed
  with low_stock_alerts_emitted(1)[OF assms] show ?thesis by simp
qed

theorem one_alert_per_joined_row_witness:
  "low_stock_alerts demo_db demo_now 7 = Inr demo_result \<and>
   map alert_key (alerts demo_result) =
     [(1, 1, demo_supplier1), (1, 1, demo_supplier2), (5, 1, demo_supplier2)] \<and>
   map alert_key (alerts demo_result) =
     map row_key (filter (qualifies demo_db (demo_now - timedelta_days 30)) (results demo_db 7))"
  using one_alert_per_joined_row[OF demo_result_eq] demo_result_eq
  by (simp add: demo_result_def alert_key_def demo_alert_def demo_bolt_alert_def)

section \<open>Rows that produce no alert\<close>

text \<open>
  C3. A product whose sales total at a warehouse over the window is 0, or which has no
  matching movement at all, has no alert for that product and warehouse.
\<close>

theorem no_sales_no_alert:
  assumes "low_stock_alerts db now cid = Inr resp"
      and "sales_query db pid wid (now - timedelta_days 30) = None \<or>
           sales_query db pid wid (now - timedelta_days 30) = Some 0"
  shows "\<forall>a\<in>set (alerts resp). \<not> (product_id a = pid \<and> warehouse_id a = wid)"
proof (intro ballI notI)
  fix a assume a: "a \<in> set (alerts resp)" and ids: "product_id a = pid \<and> warehouse_id a = wid"
  from alert_origin[OF assms(1) a] obtain i p w s
    where "row_alert db (now - timedelta_days 30) (i, p, w, s) = Inr (Some a)" by blast
  from row_alert_Some[OF this] ids assms(2) show False by auto
qed

theorem no_sales_no_alert_witness:
  "low_stock_alerts demo_db demo_now 7 = Inr demo_result \<and>
   sales_query demo_db 3 1 (demo_now - timedelta_days 30) = None \<and>
   inv_quantity (inventories demo_db ! 2) = Some 0 \<and>
   map product_id (alerts demo_result) = [1, 1, 5]"
  using no_sales_no_alert[OF demo_result_eq, of 3 1] demo_result_eq demo_sales(3)
  by (simp add: demo_result_def demo_alert_def demo_bolt_alert_def demo_db_def)

text \<open>
  C5. The alerts are what the joined rows emit; a row whose stock is above the resolved
  threshold of its product emits nothing, and every alert has a stock at most its threshold,
  both read from a joined row with the product and warehouse of the alert.
\<close>

theorem above_threshold_no_alert:
  assumes "low_stock_alerts db now cid = Inr resp"
  shows "alerts resp = concat (map (emitted db (now - timedelta_days 30)) (results db cid)) \<and>
         (\<forall>(i, p, w, s)\<in>set (results db cid). \<forall>q. inv_quantity i = Some q \<and>
              threshold_for (pr_product_type p) < q \<longrightarrow>
              emitted db (now - timedelta_days 30) (i, p, w, s) = []) \<and>
         (\<forall>a\<in>set (alerts resp). current_stock a \<le> threshold a \<and>
              (\<exists>(i, p, w, s)\<in>set (results db cid). inv_quantity i = Some (current_stock a) \<and>
                 threshold a = threshold_for (pr_product_type p) \<and>
                 product_id a = pr_id p \<and> warehouse_id a = wh_id w))"
proof (intro conjI)
  show "alerts resp = concat (map (emitted db (now - timedelta_days 30)) (results db cid))"
    by (rule low_stock_alerts_emitted(1)[OF assms])
  show "\<forall>(i, p, w, s)\<in>set (results db cid). \<forall>q. inv_quantity i = Some q \<and>
              threshold_for (pr_product_type p) < q \<longrightarrow>
              emitted db (now - timedelta_days 30) (i, p, w, s) = []"
    by (auto simp: emitted_def row_alert_def Let_def split: option.splits sum.splits)
  show "\<forall>a\<in>set (alerts resp). current_stock a \<le> threshold a \<and>
              (\<exists>(i, p, w, s)\<in>set (results db cid). inv_quantity i = Some (current_stock a) \<and>
                 threshold a = threshold_for (pr_product_type p) \<and>
                 product_id a = pr_id p \<and> warehouse_id a = wh_id w)"
  proof
    fix a assume a: "a \<in> set (alerts resp)"
    from alert_origin[OF assms a] obtain i p w s
      where row: "(i, p, w, s) \<in> set (results db cid)"
        and ra: "row_alert db (now - timedelta_days 30) (i, p, w, s) = Inr (Some a)" by blast
    from row_alert_Some[OF ra] row
    show "current_stock a \<le> threshold a \<and>
              (\<exists>(i, p, w, s)\<in>set (results db cid). inv_quantity i = Some (current_stock a) \<and>
                 threshold a = threshold_for (pr_product_type p) \<and>
                 product_id a = pr_id p \<and> warehouse_id a = wh_id w)"
      by fastforce
  qed
qed

theorem above_threshold_no_alert_witness:
  "low_stock_alerts demo_db demo_now 7 = Inr demo_result \<and>
   alerts demo_result =
     concat (map (emitted demo_db (demo_now - timedelta_days 30)) (results demo_db 7)) \<and>
   map current_stock (alerts demo_result) = [15, 15, 20] \<and>
   map threshold (alerts demo_result) = [20, 20, 20] \<and>
   inv_quantity (inventories demo_db ! 3) = Some 25"
proof -
  note t = above_threshold_no_alert[OF demo_result_eq]
  have 1: "alerts demo_result =
     concat (map (emitted demo_db (demo_now - timedelta_days 30)) (results demo_db 7))"
    using t by blast
  have 2: "map current_stock (alerts demo_result) = [15, 15, 20]"
    "map threshold (alerts demo_result) = [20, 20, 20]"
    by (simp_all add: demo_result_def demo_alert_def demo_bolt_alert_def)
  have 3: "inv_quantity (inventories demo_db ! 3) = Some 25"
    by (simp add: demo_db_def)
  show ?thesis using demo_result_eq 1 2 3 by blast
qed



text \<open>
  C9. A product with no ProductSupplier row appears in no alert.
\<close>

theorem supplierless_product_no_alert:
  assumes "low_stock_alerts db now cid = Inr resp"
      and "\<forall>ps\<in>set (product_suppliers db). ps_product_id ps \<noteq> pid"
  shows "\<forall>a\<in>set (alerts resp). product_id a \<noteq> pid"
proof
  fix a assume a: "a \<in> set (alerts resp)"
  from alert_origin[OF assms(1) a] obtain i p w s
    where row: "(i, p, w, s) \<in> set (results db cid)"
      and ra: "row_alert db (now - timedelta_days 30) (i, p, w, s) = Inr (Some a)" by blast
  from row obtain ps where "ps \<in> set (product_suppliers db)" "pr_id p = ps_product_id ps"
    by (auto simp: results_member)
  with assms(2) have "pr_id p \<noteq> pid" by auto
  with row_alert_Some[OF ra] show "product_id a \<noteq> pid" by auto
qed

theorem supplierless_product_no_alert_witness:
  "low_stock_alerts demo_db demo_now 7 = Inr demo_result \<and>
   map ps_product_id (product_suppliers demo_db) = [1, 1, 3, 4, 5] \<and>
   sales_query demo_db 2 1 (demo_now - timedelta_days 30) = Some 10 \<and>
   inv_quantity (inventories demo_db ! 1) = Some 5 \<and>
   2 \<notin> set (map product_id (alerts demo_result))"
proof -
  have h: "\<forall>ps\<in>set (product_suppliers demo_db). ps_product_id ps \<noteq> 2"
    by (simp add: demo_db_def)
  have d: "map ps_product_id (product_suppliers demo_db) = [1, 1, 3, 4, 5]"
    "inv_quantity (inventories demo_db ! 1) = Some 5"
    by (simp_all add: demo_db_def)
  from supplierless_product_no_alert[OF demo_result_eq h]
  have "2 \<notin> set (map product_id (alerts demo_result))" by auto
  with d demo_result_eq demo_sales(2) show ?thesis by simp
qed

section \<open>Days until stockout\<close>

subsection \<open>The error of one rounding\<close>

lemma ilog2_bounds: "1 \<le> n \<Longrightarrow> 2 ^ ilog2 n \<le> n \<and> n < 2 ^ Suc (ilog2 n)"
proof (induction n rule: ilog2.induct)
  case (1 n)
  show ?case
  proof (cases "n < 2")
    case True
    with "1.prems" have "n = 1" by simp
    then show ?thesis by (simp add: ilog2.simps)
  next
    case False
    then have "1 \<le> n div 2" by simp
    with "1.IH"[OF False] have ih: "2 ^ ilog2 (n div 2) \<le> n div 2" "n div 2 < 2 ^ Suc (ilog2 (n div 2))"
      by simp_all
    have eq: "ilog2 n = Suc (ilog2 (n div 2))" using False by (subst ilog2.simps) simp
    from ih show ?thesis unfolding eq by (simp; linarith)
  qed
qed

lemma round_half_even_err:
  assumes "0 < d"
  shows "\<bar>of_int (round_half_even n d) - (of_int n / of_int d :: rat)\<bar> \<le> 1 / 2"
proof -
  define q r where "q = n div d" and "r = n mod d"
  have n: "n = d * q + r" and r: "0 \<le> r" "r < d"
    using assms by (simp_all add: q_def r_def)
  have frac: "(of_int n / of_int d :: rat) = of_int q + of_int r / of_int d"
    using assms by (simp add: n field_simps)
  have r0: "0 \<le> (of_int r / of_int d :: rat)" "(of_int r / of_int d :: rat) < 1"
    using r assms by simp_all
  have half: "2 * r < d \<Longrightarrow> (of_int r / of_int d :: rat) \<le> 1 / 2"
             "d \<le> 2 * r \<Longrightarrow> 1 / 2 \<le> (of_int r / of_int d :: rat)"
  proof -
    assume "2 * r < d"
    then have "(of_int (2 * r) :: rat) \<le> of_int d" by (simp only: of_int_le_iff)
    then show "(of_int r / of_int d :: rat) \<le> 1 / 2" using assms by (simp add: field_simps)
  next
    assume "d \<le> 2 * r"
    then have "(of_int d :: rat) \<le> of_int (2 * r)" by (simp only: of_int_le_iff)
    then show "1 / 2 \<le> (of_int r / of_int d :: rat)" using assms by (simp add: field_simps)
  qed
  have rhe: "round_half_even n d = q \<and> 2 * r \<le> d \<or> round_half_even n d = q + 1 \<and> d \<le> 2 * r"
    unfolding round_half_even_def Let_def q_def[symmetric] r_def[symmetric] by auto
  then show ?thesis
  proof
    assume a: "round_half_even n d = q \<and> 2 * r \<le> d"
    then have "(of_int r / of_int d :: rat) \<le> 1 / 2"
    proof (cases "2 * r < d")
      case True then show ?thesis by (rule half(1))
    next
      case False
      with a have "d = 2 * r" by simp
      then show ?thesis using assms by simp
    qed
    with a r0 show ?thesis by (simp add: frac)
  next
    assume a: "round_half_even n d = q + 1 \<and> d \<le> 2 * r"
    then have "1 / 2 \<le> (of_int r / of_int d :: rat)" by (intro half(2)) simp
    with a r0 show ?thesis by (simp add: frac)
  qed
qed

lemma powi_diff_nat:
  "(2::rat) powi (int a - int b) = 2 ^ a / 2 ^ b"
  by (simp add: power_int_diff)

lemma binade_le:
  assumes "0 < n" and "0 < d"
  shows "(2::rat) powi (binade n d) \<le> of_int n / of_int d"
proof -
  define k where "k = int (ilog2 n) - int (ilog2 d)"
  have nb: "(2::rat) ^ ilog2 n \<le> of_int n"
  proof -
    have "(2::int) ^ ilog2 n \<le> n" using ilog2_bounds[of n] assms by simp
    then have "(of_int (2 ^ ilog2 n) :: rat) \<le> of_int n" by (simp only: of_int_le_iff)
    then show ?thesis by simp
  qed
  have db: "(of_int d :: rat) < 2 ^ Suc (ilog2 d)"
  proof -
    have "d < 2 ^ Suc (ilog2 d)" using ilog2_bounds[of d] assms by simp
    then have "(of_int d :: rat) < of_int (2 ^ Suc (ilog2 d))" by (simp only: of_int_less_iff)
    then show ?thesis by simp
  qed
  have dpos: "(0::rat) < of_int d" using assms by simp
  have bd: "binade n d =
      (if (if 0 \<le> k then d * 2 ^ nat k \<le> n else d \<le> n * 2 ^ nat (- k)) then k else k - 1)"
    by (simp only: binade_def Let_def k_def)
  show ?thesis
  proof (cases "if 0 \<le> k then d * 2 ^ nat k \<le> n else d \<le> n * 2 ^ nat (- k)")
    case True
    then have b: "binade n d = k" by (simp add: bd)
    show ?thesis
    proof (cases "0 \<le> k")
      case True
      with \<open>if 0 \<le> k then d * 2 ^ nat k \<le> n else d \<le> n * 2 ^ nat (- k)\<close>
      have "d * 2 ^ nat k \<le> n" by simp
      then have "(of_int (d * 2 ^ nat k) :: rat) \<le> of_int n" by (simp only: of_int_le_iff)
      then have "(of_int d :: rat) * 2 ^ nat k \<le> of_int n" by simp
      moreover have "(2::rat) powi k = 2 ^ nat k" using True by (simp add: power_int_def)
      ultimately show ?thesis using dpos by (simp add: b field_simps)
    next
      case False
      with \<open>if 0 \<le> k then d * 2 ^ nat k \<le> n else d \<le> n * 2 ^ nat (- k)\<close>
      have "d \<le> n * 2 ^ nat (- k)" by simp
      then have "(of_int d :: rat) \<le> of_int (n * 2 ^ nat (- k))" by (simp only: of_int_le_iff)
      define P :: rat where "P = 2 ^ nat (- k)"
      have Ppos: "0 < P" by (simp add: P_def)
      have le: "(of_int d :: rat) \<le> of_int n * P"
        using \<open>(of_int d :: rat) \<le> of_int (n * 2 ^ nat (- k))\<close> by (simp add: P_def)
      have pk: "(2::rat) powi k = 1 / P"
        using False by (simp add: power_int_def P_def field_simps)
      have "1 / P \<le> (of_int n / of_int d :: rat)"
        using le Ppos dpos by (simp add: field_simps)
      then show ?thesis by (simp add: b pk)
    qed
  next
    case False
    then have b: "binade n d = k - 1" by (simp add: bd)
    have "(2::rat) powi (k - 1) = 2 ^ ilog2 n / 2 ^ Suc (ilog2 d)"
    proof -
      have "k - 1 = int (ilog2 n) - int (Suc (ilog2 d))" by (simp add: k_def)
      then show ?thesis by (simp only: powi_diff_nat)
    qed
    also have "\<dots> \<le> of_int n / 2 ^ Suc (ilog2 d)"
      using nb by (simp add: divide_right_mono)
    also have "\<dots> \<le> of_int n / of_int d"
      using db dpos assms(1) by (intro divide_left_mono) simp_all
    finally show ?thesis by (simp add: b)
  qed
qed

lemma round_pos_err:
  assumes "0 < n" and "0 < d"
  shows "\<bar>dval (round_pos n d) - of_int n / of_int d\<bar> \<le> (of_int n / of_int d) / 2 ^ 53"
proof -
  define k where "k = binade n d - 52"
  define m where "m = (if 0 \<le> k then round_half_even n (d * 2 ^ nat k)
                       else round_half_even (n * 2 ^ nat (- k)) d)"
  define x :: rat where "x = of_int n / of_int d"
  have rp: "round_pos n d = Double m k" by (simp only: round_pos_def k_def m_def Let_def)
  have p: "(0::rat) < 2 powi k" by simp
  have scaled: "\<bar>of_int m - x / 2 powi k\<bar> \<le> 1 / 2"
  proof (cases "0 \<le> k")
    case True
    then have pk: "(2::rat) powi k = 2 ^ nat k" by (simp add: power_int_def)
    have "0 < d * 2 ^ nat k" using assms by simp
    from round_half_even_err[OF this, of n]
    have "\<bar>of_int m - (of_int n / of_int (d * 2 ^ nat k) :: rat)\<bar> \<le> 1 / 2"
      using True by (simp add: m_def)
    moreover have "(of_int n / of_int (d * 2 ^ nat k) :: rat) = x / 2 powi k"
      by (simp add: x_def pk)
    ultimately show ?thesis by simp
  next
    case False
    then have pk: "(2::rat) powi k = 1 / 2 ^ nat (- k)" by (simp add: power_int_def field_simps)
    from round_half_even_err[OF assms(2), of "n * 2 ^ nat (- k)"]
    have "\<bar>of_int m - (of_int (n * 2 ^ nat (- k)) / of_int d :: rat)\<bar> \<le> 1 / 2"
      using False by (simp add: m_def)
    moreover have "(of_int (n * 2 ^ nat (- k)) / of_int d :: rat) = x / 2 powi k"
      by (simp add: x_def pk)
    ultimately show ?thesis by simp
  qed
  have "\<bar>dval (round_pos n d) - x\<bar> = \<bar>of_int m - x / 2 powi k\<bar> * 2 powi k"
  proof -
    have "dval (round_pos n d) - x = (of_int m - x / 2 powi k) * 2 powi k"
      by (simp add: rp dval_def field_simps)
    then show ?thesis by (simp add: abs_mult)
  qed
  also have "\<dots> \<le> 1 / 2 * 2 powi k"
    using scaled p by (intro mult_right_mono) simp_all
  also have "1 / 2 * (2::rat) powi k = 2 powi (binade n d) / 2 ^ 53"
  proof -
    have "(2::rat) powi k = 2 powi (binade n d) / 2 ^ 52"
      unfolding k_def by (simp add: power_int_diff)
    then show ?thesis by simp
  qed
  also have "\<dots> \<le> x / 2 ^ 53"
    using binade_le[OF assms] by (simp add: x_def divide_right_mono)
  finally show ?thesis by (simp add: x_def)
qed

lemma round_ratio_pos_err:
  assumes "0 < n" and "0 < d"
  shows "\<bar>dval (round_ratio n d) - of_int n / of_int d\<bar> \<le> (of_int n / of_int d) / 2 ^ 53"
  using round_pos_err[OF assms] assms by (simp add: round_ratio_def Let_def)

lemma round_ratio_zero: "dval (round_ratio 0 d) = 0"
  by (simp add: round_ratio_def dval_def)

text \<open>
  A rounded non-negative quotient differs from the quotient by at most the fraction
  \<open>1 / 2 ^ 53\<close> of it.
\<close>

lemma round_ratio_bounds:
  assumes "0 \<le> n" and "0 < d"
  shows "(of_int n / of_int d) * (1 - 1 / 2 ^ 53) \<le> dval (round_ratio n d)"
    and "dval (round_ratio n d) \<le> (of_int n / of_int d) * (1 + 1 / 2 ^ 53)"
proof -
  have "\<bar>dval (round_ratio n d) - of_int n / of_int d\<bar> \<le> (of_int n / of_int d) / 2 ^ 53"
  proof (cases "n = 0")
    case True
    then show ?thesis by (simp add: round_ratio_zero)
  next
    case False
    with assms have "0 < n" by simp
    from round_ratio_pos_err[OF this assms(2)] show ?thesis .
  qed
  then show "(of_int n / of_int d) * (1 - 1 / 2 ^ 53) \<le> dval (round_ratio n d)"
    and "dval (round_ratio n d) \<le> (of_int n / of_int d) * (1 + 1 / 2 ^ 53)"
    by (simp_all add: abs_le_iff algebra_simps)
qed

lemma dval_pos_mant: "0 < dval x \<longleftrightarrow> 0 < mant x"
proof -
  have "(0::rat) < 2 powi expo x" by simp
  then have "\<not> (2::rat) powi expo x < 0" by (simp only: not_less less_imp_le)
  then show ?thesis by (simp add: dval_def zero_less_mult_iff)
qed

lemma dval_nonneg_mant: "0 \<le> dval x \<longleftrightarrow> 0 \<le> mant x"
proof -
  have "(0::rat) < 2 powi expo x" by simp
  then have "\<not> (2::rat) powi expo x \<le> 0" by (simp only: not_le)
  then show ?thesis by (simp add: dval_def zero_le_mult_iff)
qed

lemma float_div_value:
  assumes "0 \<le> mant x" and "0 < mant y"
  shows "\<exists>n d. 0 \<le> n \<and> 0 < d \<and> float_div x y = Inr (round_ratio n d) \<and>
           (of_int n / of_int d :: rat) = dval x / dval y"
proof (cases "0 \<le> expo x - expo y")
  case True
  define sh where "sh = expo x - expo y"
  have "(2::rat) powi expo x = 2 powi sh * 2 powi expo y"
    by (simp add: sh_def flip: power_int_add)
  moreover have "(2::rat) powi sh = 2 ^ nat sh" using True by (simp add: sh_def power_int_def)
  ultimately have "(of_int (mant x * 2 ^ nat sh) / of_int (mant y) :: rat) = dval x / dval y"
    by (simp add: dval_def)
  moreover have "float_div x y = Inr (round_ratio (mant x * 2 ^ nat sh) (mant y))"
    using True assms by (simp add: float_div_def sh_def Let_def)
  moreover have "0 \<le> mant x * 2 ^ nat sh" using assms by simp
  ultimately show ?thesis using assms(2) by blast
next
  case False
  define sh where "sh = expo y - expo x"
  have "(2::rat) powi expo y = 2 powi sh * 2 powi expo x"
    by (simp add: sh_def flip: power_int_add)
  moreover have "(2::rat) powi sh = 2 ^ nat sh" using False by (simp add: sh_def power_int_def)
  ultimately have "(of_int (mant x) / of_int (mant y * 2 ^ nat sh) :: rat) = dval x / dval y"
    by (simp add: dval_def)
  moreover have "float_div x y = Inr (round_ratio (mant x) (mant y * 2 ^ nat sh))"
    using False assms by (simp add: float_div_def sh_def Let_def)
  moreover have "0 < mant y * 2 ^ nat sh" using assms by simp
  ultimately show ?thesis using assms(1) by blast
qed

lemma int_of_float_floor:
  assumes "0 \<le> mant x"
  shows "int_of_float x = \<lfloor>dval x\<rfloor>"
proof (cases "0 \<le> expo x")
  case True
  then have "dval x = of_int (mant x * 2 ^ nat (expo x))"
    by (simp add: dval_def power_int_def)
  then have "\<lfloor>dval x\<rfloor> = mant x * 2 ^ nat (expo x)" by (simp only: floor_of_int)
  then show ?thesis using True by (simp add: int_of_float_def)
next
  case False
  then have "dval x = of_int (mant x) / of_int (2 ^ nat (- expo x))"
    by (simp add: dval_def power_int_def field_simps)
  then have "\<lfloor>dval x\<rfloor> = mant x div 2 ^ nat (- expo x)"
    by (simp only: floor_divide_of_int_eq)
  then show ?thesis using False assms by (simp add: int_of_float_def)
qed

subsection \<open>The error of the three roundings of the day count\<close>

text \<open>
  \<^verbatim>\<open>int(quantity / (sales / 30))\<close> rounds three times: \<open>sales / 30\<close>, the conversion of
  the quantity, and the quotient of the two. The result of the last division is within
  the fraction \<open>1 / 2 ^ 51\<close> of the exact value \<open>30 * quantity / sales\<close>.
\<close>

lemma chain_bounds:
  fixes Q S A X Z e :: rat
  assumes "0 \<le> Q" "0 < S" "0 < e" "e < 1"
    and A: "S * (1 - e) \<le> A" "A \<le> S * (1 + e)"
    and X: "Q * (1 - e) \<le> X" "X \<le> Q * (1 + e)"
    and Z: "(X / A) * (1 - e) \<le> Z" "Z \<le> (X / A) * (1 + e)"
  shows "Z \<le> (Q / S) * ((1 + e) * (1 + e) / (1 - e))"
    and "(Q / S) * ((1 - e) * (1 - e) / (1 + e)) \<le> Z"
proof -
  have lo: "0 < S * (1 - e)" using assms(2,4) by simp
  have hi: "0 < S * (1 + e)" using assms(2,3) by simp
  have Apos: "0 < A" using lo A(1) by linarith
  have X0: "0 \<le> X"
  proof -
    have "0 \<le> Q * (1 - e)" using assms(1,4) by simp
    with X(1) show ?thesis by linarith
  qed
  have up: "X / A \<le> Q * (1 + e) / (S * (1 - e))"
    using X(2) A(1) lo X0 by (intro frac_le) simp_all
  have dn: "Q * (1 - e) / (S * (1 + e)) \<le> X / A"
  proof -
    have "0 \<le> Q * (1 - e)" using assms(1,4) by simp
    then show ?thesis using X(1) A(2) Apos by (intro frac_le) simp_all
  qed
  have "Z \<le> (Q * (1 + e) / (S * (1 - e))) * (1 + e)"
  proof -
    have "(X / A) * (1 + e) \<le> (Q * (1 + e) / (S * (1 - e))) * (1 + e)"
      using up assms(3) by (intro mult_right_mono) simp_all
    with Z(2) show ?thesis by linarith
  qed
  then show "Z \<le> (Q / S) * ((1 + e) * (1 + e) / (1 - e))" by (simp add: field_simps)
  have "(Q * (1 - e) / (S * (1 + e))) * (1 - e) \<le> Z"
  proof -
    have "(Q * (1 - e) / (S * (1 + e))) * (1 - e) \<le> (X / A) * (1 - e)"
      using dn assms(4) by (intro mult_right_mono) simp_all
    with Z(1) show ?thesis by linarith
  qed
  then show "(Q / S) * ((1 - e) * (1 - e) / (1 + e)) \<le> Z" by (simp add: field_simps)
qed

lemma rounding_constants:
  "((1 + 1 / 2 ^ 53) * (1 + 1 / 2 ^ 53) / (1 - 1 / 2 ^ 53) :: rat) \<le> 1 + 1 / 2 ^ 51"
  "(1 - 1 / 2 ^ 51 :: rat) \<le> (1 - 1 / 2 ^ 53) * (1 - 1 / 2 ^ 53) / (1 + 1 / 2 ^ 53)"
  by simp_all

lemma stockout_days_value:
  assumes "0 \<le> q" and "0 < s"
  shows "\<exists>Z::rat. stockout_days q (round_ratio s 30) = Inr \<lfloor>Z\<rfloor> \<and>
           Z \<le> (of_int (30 * q) / of_int s) * (1 + 1 / 2 ^ 51) \<and>
           (of_int (30 * q) / of_int s) * (1 - 1 / 2 ^ 51) \<le> Z"
proof -
  define e :: rat where "e = 1 / 2 ^ 53"
  define a where "a = round_ratio s 30"
  define x where "x = float_of_int q"
  define Q :: rat where "Q = of_int q"
  define S :: rat where "S = of_int s / 30"
  have e: "0 < e" "e < 1" by (simp_all add: e_def)
  have Q: "0 \<le> Q" using assms by (simp add: Q_def)
  have S: "0 < S" using assms by (simp add: S_def)
  have A: "S * (1 - e) \<le> dval a" "dval a \<le> S * (1 + e)"
    using round_ratio_bounds[of s 30] assms by (simp_all add: a_def S_def e_def)
  have X: "Q * (1 - e) \<le> dval x" "dval x \<le> Q * (1 + e)"
    using round_ratio_bounds[of q 1] assms by (simp_all add: x_def float_of_int_def Q_def e_def)
  have "0 < S * (1 - e)" using S e by simp
  with A(1) have "0 < dval a" by linarith
  then have ma: "0 < mant a" by (simp only: dval_pos_mant)
  have "0 \<le> Q * (1 - e)" using Q e by simp
  with X(1) have "0 \<le> dval x" by linarith
  then have mx: "0 \<le> mant x" by (simp only: dval_nonneg_mant)
  from float_div_value[OF mx ma] obtain n d where nd: "0 \<le> n" "0 < d"
      and fd: "float_div x a = Inr (round_ratio n d)"
      and val: "(of_int n / of_int d :: rat) = dval x / dval a"
    by blast
  define z where "z = round_ratio n d"
  have Z: "(dval x / dval a) * (1 - e) \<le> dval z" "dval z \<le> (dval x / dval a) * (1 + e)"
    using round_ratio_bounds[OF nd] by (simp_all add: z_def val e_def)
  have "0 \<le> dval x / dval a" using \<open>0 \<le> dval x\<close> \<open>0 < dval a\<close> by simp
  then have "0 \<le> (dval x / dval a) * (1 - e)" using e by (intro mult_nonneg_nonneg) simp_all
  with Z(1) have "0 \<le> dval z" by linarith
  then have mz: "0 \<le> mant z" by (simp only: dval_nonneg_mant)
  have sd: "stockout_days q (round_ratio s 30) = Inr \<lfloor>dval z\<rfloor>"
    using fd int_of_float_floor[OF mz] by (simp add: stockout_days_def a_def x_def z_def)
  have T: "Q / S = of_int (30 * q) / of_int s" by (simp add: Q_def S_def)
  have T0: "0 \<le> Q / S" using Q S by simp
  note cb = chain_bounds[OF Q S e A X Z]
  have "dval z \<le> (Q / S) * (1 + 1 / 2 ^ 51)"
  proof -
    have "(Q / S) * ((1 + e) * (1 + e) / (1 - e)) \<le> (Q / S) * (1 + 1 / 2 ^ 51)"
      using T0 rounding_constants(1) unfolding e_def by (rule mult_left_mono[rotated])
    with cb(1) show ?thesis by linarith
  qed
  moreover have "(Q / S) * (1 - 1 / 2 ^ 51) \<le> dval z"
  proof -
    have "(Q / S) * (1 - 1 / 2 ^ 51) \<le> (Q / S) * ((1 - e) * (1 - e) / (1 + e))"
      using T0 rounding_constants(2) unfolding e_def by (rule mult_left_mono[rotated])
    with cb(2) show ?thesis by linarith
  qed
  ultimately show ?thesis using sd unfolding T by blast
qed

lemma floor_upper:
  fixes Z :: rat
  assumes "0 \<le> N" and "N \<le> 600" and "0 < s"
      and "Z \<le> (of_int N / of_int s) * (1 + 1 / 2 ^ 51)"
  shows "Z < of_int (N div s) + 1"
proof -
  define n m where "n = N div s" and "m = N mod s"
  have N: "N = s * n + m" and m: "0 \<le> m" "m \<le> s - 1"
    using assms(3) by (simp_all add: n_def m_def)
  define s' N' n' m' :: rat where "s' = of_int s" and "N' = of_int N" and "n' = of_int n"
    and "m' = of_int m"
  have s': "0 < s'" using assms(3) by (simp add: s'_def)
  have N': "N' = s' * n' + m'" unfolding s'_def N'_def n'_def m'_def using N by simp
  have m': "m' \<le> s' - 1" unfolding s'_def m'_def using m(2) by (simp flip: of_int_diff add: of_int_le_iff del: of_int_diff)
  have Nb: "0 \<le> N'" "N' \<le> 600" unfolding N'_def using assms(1,2) by simp_all
  have "N' * (1 + 1 / 2 ^ 51) < (n' + 1) * s'"
  proof -
    have "N' * (1 / 2 ^ 51) \<le> 600 * (1 / 2 ^ 51)" using Nb by (intro mult_right_mono) simp_all
    also have "\<dots> < (1::rat)" by simp
    finally have "N' * (1 / 2 ^ 51) < 1" .
    moreover have "N' * (1 + 1 / 2 ^ 51) = s' * n' + m' + N' * (1 / 2 ^ 51)"
      by (simp add: N' algebra_simps)
    moreover have "(n' + 1) * s' = s' * n' + s'" by (simp add: algebra_simps)
    ultimately show ?thesis using m' by linarith
  qed
  then have "(N' / s') * (1 + 1 / 2 ^ 51) < n' + 1"
    using s' by (simp add: field_simps)
  with assms(4) show ?thesis unfolding N'_def s'_def n'_def n_def by linarith
qed

lemma floor_lower:
  fixes Z :: rat
  assumes "0 \<le> N" and "N \<le> 600" and "0 < s" and "N mod s \<noteq> 0 \<or> N = 0"
      and "(of_int N / of_int s) * (1 - 1 / 2 ^ 51) \<le> Z"
  shows "of_int (N div s) \<le> Z"
proof (cases "N = 0")
  case True
  with assms(5) show ?thesis by simp
next
  case False
  with assms(4) have nz: "N mod s \<noteq> 0" by simp
  define n m where "n = N div s" and "m = N mod s"
  have N: "N = s * n + m" by (simp add: n_def m_def)
  have "0 \<le> N mod s" using assms(3) by simp
  with nz have m: "1 \<le> m" by (simp add: m_def)
  define s' N' n' m' :: rat where "s' = of_int s" and "N' = of_int N" and "n' = of_int n"
    and "m' = of_int m"
  have s': "0 < s'" using assms(3) by (simp add: s'_def)
  have N': "N' = s' * n' + m'" unfolding s'_def N'_def n'_def m'_def using N by simp
  have m': "1 \<le> m'" unfolding m'_def using m by simp
  have Nb: "0 \<le> N'" "N' \<le> 600" unfolding N'_def using assms(1,2) by simp_all
  define dl :: rat where "dl = 1 / 2 ^ 51"
  have "n' * s' \<le> N' * (1 - dl)"
  proof -
    have "N' * dl \<le> 600 * dl" using Nb by (intro mult_right_mono) (simp_all add: dl_def)
    also have "\<dots> < (1::rat)" by (simp add: dl_def)
    finally have "N' * dl < 1" .
    moreover have "N' * (1 - dl) = N' - N' * dl" by (simp add: algebra_simps)
    moreover have "n' * s' = s' * n'" by simp
    ultimately show ?thesis using m' N' by linarith
  qed
  then have "n' \<le> (N' / s') * (1 - dl)"
    using s' by (simp add: field_simps)
  then have "n' \<le> (N' / s') * (1 - 1 / 2 ^ 51)" by (simp only: dl_def)
  with assms(5) show ?thesis unfolding N'_def s'_def n'_def n_def by linarith
qed

subsection \<open>Quotients that are integers\<close>

lemma exact_divisors_1_5: "list_all exact_divisors_ok [1..5]"
  by code_simp

lemma exact_divisors_6_10: "list_all exact_divisors_ok [6..10]"
  by code_simp

lemma exact_divisors_11_15: "list_all exact_divisors_ok [11..15]"
  by code_simp

lemma exact_divisors_16_20: "list_all exact_divisors_ok [16..20]"
  by code_simp

lemma exact_cases:
  assumes "1 \<le> q" and "q \<le> 20" and "0 < s" and "s dvd 30 * q"
  shows "stockout_days q (round_ratio s 30) = Inr (30 * q div s)"
proof -
  have "q \<in> set [1..5] \<or> q \<in> set [6..10] \<or> q \<in> set [11..15] \<or> q \<in> set [16..20]"
    using assms(1,2) unfolding set_upto atLeastAtMost_iff by presburger
  then have ok: "exact_divisors_ok q"
    using exact_divisors_1_5 exact_divisors_6_10 exact_divisors_11_15 exact_divisors_16_20
    unfolding list_all_iff by blast
  define d where "d = (if s \<le> 24 then s else 30 * q div s)"
  from assms(4) obtain c where c: "30 * q = s * c" by (auto simp: dvd_def)
  have cdiv: "30 * q div s = c" using c assms(3) by simp
  have cpos: "1 \<le> c"
  proof (rule ccontr)
    assume "\<not> 1 \<le> c"
    then have "c \<le> 0" by simp
    then have "s * c \<le> 0" using assms(3) by (simp add: mult_le_0_iff)
    with c assms(1) show False by simp
  qed
  have facts: "1 \<le> d \<and> d \<le> 24 \<and> d dvd 30 * q \<and> (s = d \<or> s = 30 * q div d)"
  proof (cases "s \<le> 24")
    case True
    then show ?thesis using assms(3,4) by (simp add: d_def)
  next
    case False
    then have s25: "25 \<le> s" by simp
    have "25 * c \<le> s * c" using s25 cpos by (intro mult_right_mono) simp_all
    also have "\<dots> \<le> 600" using c assms(2) by simp
    finally have "c \<le> 24" by simp
    moreover have "c dvd 30 * q" using c by simp
    moreover have "30 * q div c = s" using c cpos by simp
    ultimately show ?thesis using False cpos by (simp add: d_def cdiv)
  qed
  then have "d \<in> set [1..24]" by simp
  with ok have "\<not> d dvd 30 * q \<or> (exact_ok q d \<and> exact_ok q (30 * q div d))"
    unfolding exact_divisors_ok_def list_all_iff by blast
  with facts have "exact_ok q s" by auto
  then show ?thesis by (simp add: exact_ok_def)
qed

lemma stockout_days_floor:
  assumes "0 \<le> q" and "q \<le> 20" and "0 < s"
  shows "stockout_days q (round_ratio s 30) = Inr \<lfloor>of_int q / (of_int s / 30 :: rat)\<rfloor>"
proof -
  define N where "N = 30 * q"
  have N: "0 \<le> N" "N \<le> 600" using assms(1,2) by (simp_all add: N_def)
  have "(of_int q / (of_int s / 30) :: rat) = of_int N / of_int s" by (simp add: N_def)
  then have fl: "\<lfloor>of_int q / (of_int s / 30 :: rat)\<rfloor> = N div s"
    by (simp only: floor_divide_of_int_eq)
  show ?thesis
  proof (cases "N mod s \<noteq> 0 \<or> N = 0")
    case True
    from stockout_days_value[OF assms(1,3)] obtain Z :: rat
      where sd: "stockout_days q (round_ratio s 30) = Inr \<lfloor>Z\<rfloor>"
        and up: "Z \<le> (of_int N / of_int s) * (1 + 1 / 2 ^ 51)"
        and lo: "(of_int N / of_int s) * (1 - 1 / 2 ^ 51) \<le> Z"
      unfolding N_def by blast
    have "Z < of_int (N div s) + 1" by (rule floor_upper[OF N assms(3) up])
    moreover have "of_int (N div s) \<le> Z" by (rule floor_lower[OF N assms(3) True lo])
    ultimately have "\<lfloor>Z\<rfloor> = N div s" by (simp add: floor_eq_iff)
    with sd fl show ?thesis by simp
  next
    case False
    then have "s dvd 30 * q" "1 \<le> q" using assms(1) by (auto simp: N_def dvd_eq_mod_eq_0)
    from exact_cases[OF this(2) assms(2,3) this(1)] fl show ?thesis by (simp add: N_def)
  qed
qed

subsection \<open>The day count of an alert\<close>

text \<open>
  The floor is exact because an alert has a stock of at most 20, the largest threshold:
  the function of the day count alone is not the floor for every stock. A stock of 23 with
  23 sales in the window lasts 30 days, and the three roundings give 29.
\<close>

lemma stockout_days_rounding: "stockout_days 23 (round_ratio 23 30) = Inr 29"
  by (simp add: float_eval)

lemma threshold_for_le: "threshold_for pt \<le> 20"
  by (auto simp: threshold_for_def dict_get_def THRESHOLDS_def split: option.splits)

lemma sales_query_nonneg: "sales_query db pid wid since = Some sold \<Longrightarrow> 0 \<le> sold"
  by (auto simp: sales_query_def Let_def split: if_splits)

lemma demo_sold_out_response:
  "low_stock_alerts demo_sold_out_db demo_now 7 =
     Inr \<lparr>status = 200, alerts = [demo_sold_out_alert], total_alerts = 1\<rparr>"
  by (simp add: low_stock_alerts_def results_def demo_sold_out_db_def demo_db_def demo_now_def
      timedelta_days_def row_alert_def sales_query_def threshold_for_def dict_get_def
      THRESHOLDS_def demo_sold_out_alert_def demo_supplier2_def float_eval)

lemma demo_sold_out_sales:
  "sales_query demo_sold_out_db 5 1 (demo_now - timedelta_days 30) = Some 600"
  by (simp add: sales_query_def demo_sold_out_db_def demo_db_def demo_now_def timedelta_days_def)

text \<open>
  C2. Every alert with a stock of at least 0 belongs to a product and warehouse whose sales
  total over the last 30 days is positive, and its \<open>days_until_stockout\<close> is the integer
  floor of the exact quotient of the stock by a thirtieth of that total; it is 0 when the
  stock is 0.
\<close>

theorem days_until_stockout_floor:
  assumes "low_stock_alerts db now cid = Inr resp" and "a \<in> set (alerts resp)"
      and "0 \<le> current_stock a"
  shows "\<exists>sold. sales_query db (product_id a) (warehouse_id a) (now - timedelta_days 30) = Some sold \<and>
           0 < sold \<and>
           days_until_stockout a = \<lfloor>of_int (current_stock a) / (of_int sold / 30 :: rat)\<rfloor> \<and>
           (current_stock a = 0 \<longrightarrow> days_until_stockout a = 0)"
proof -
  let ?t = "now - timedelta_days 30"
  from alert_origin[OF assms(1,2)] obtain i p w s
    where ra: "row_alert db ?t (i, p, w, s) = Inr (Some a)" by blast
  from row_alert_Some[OF ra] obtain sold
    where sq: "sales_query db (pr_id p) (wh_id w) ?t = Some sold" and nz: "sold \<noteq> 0"
      and le: "current_stock a \<le> threshold a"
      and thr: "threshold a = threshold_for (pr_product_type p)"
      and ids: "product_id a = pr_id p" "warehouse_id a = wh_id w"
      and sd: "stockout_days (current_stock a) (round_ratio sold 30) = Inr (days_until_stockout a)"
    by blast
  have pos: "0 < sold" using sales_query_nonneg[OF sq] nz by simp
  have q20: "current_stock a \<le> 20" using le thr threshold_for_le[of "pr_product_type p"] by simp
  from stockout_days_floor[OF assms(3) q20 pos] sd
  have fl: "days_until_stockout a = \<lfloor>of_int (current_stock a) / (of_int sold / 30 :: rat)\<rfloor>"
    by simp
  then have zero: "current_stock a = 0 \<longrightarrow> days_until_stockout a = 0" by simp
  from sq ids have "sales_query db (product_id a) (warehouse_id a) ?t = Some sold" by simp
  with pos fl zero show ?thesis by blast
qed

theorem days_until_stockout_floor_witness:
  "low_stock_alerts demo_db demo_now 7 = Inr demo_result \<and>
   demo_alert demo_supplier1 \<in> set (alerts demo_result) \<and>
   current_stock (demo_alert demo_supplier1) = 15 \<and>
   sales_query demo_db 1 1 (demo_now - timedelta_days 30) = Some 60 \<and>
   days_until_stockout (demo_alert demo_supplier1) = \<lfloor>15 / (60 / 30 :: rat)\<rfloor> \<and>
   days_until_stockout (demo_alert demo_supplier1) = 7 \<and>
   low_stock_alerts demo_sold_out_db demo_now 7 =
     Inr \<lparr>status = 200, alerts = [demo_sold_out_alert], total_alerts = 1\<rparr> \<and>
   current_stock demo_sold_out_alert = 0 \<and>
   sales_query demo_sold_out_db 5 1 (demo_now - timedelta_days 30) = Some 600 \<and>
   days_until_stockout demo_sold_out_alert = \<lfloor>0 / (600 / 30 :: rat)\<rfloor> \<and>
   days_until_stockout demo_sold_out_alert = 0"
proof -
  have m1: "demo_alert demo_supplier1 \<in> set (alerts demo_result)"
    by (simp add: demo_result_def)
  have s1: "0 \<le> current_stock (demo_alert demo_supplier1)"
    "current_stock (demo_alert demo_supplier1) = 15"
    "product_id (demo_alert demo_supplier1) = 1" "warehouse_id (demo_alert demo_supplier1) = 1"
    "days_until_stockout (demo_alert demo_supplier1) = 7"
    by (simp_all add: demo_alert_def)
  from days_until_stockout_floor[OF demo_result_eq m1 s1(1)] demo_sales(1)
  have f1: "days_until_stockout (demo_alert demo_supplier1) = \<lfloor>15 / (60 / 30 :: rat)\<rfloor>"
    by (simp add: s1(2,3,4))
  have m2: "demo_sold_out_alert \<in>
      set (alerts \<lparr>status = 200, alerts = [demo_sold_out_alert], total_alerts = 1\<rparr>)"
    by simp
  have s2: "0 \<le> current_stock demo_sold_out_alert" "current_stock demo_sold_out_alert = 0"
    "product_id demo_sold_out_alert = 5" "warehouse_id demo_sold_out_alert = 1"
    by (simp_all add: demo_sold_out_alert_def)
  from days_until_stockout_floor[OF demo_sold_out_response m2 s2(1)] demo_sold_out_sales
  have f2: "days_until_stockout demo_sold_out_alert = \<lfloor>0 / (600 / 30 :: rat)\<rfloor>"
    "days_until_stockout demo_sold_out_alert = 0"
    by (simp_all add: s2(2,3,4))
  show ?thesis
    using demo_result_eq m1 s1(2,5) demo_sales(1) f1 demo_sold_out_response s2(2)
      demo_sold_out_sales f2
    by blast
qed

section \<open>Creating a product\<close>

lemma missing_field_none:
  "has_required kv \<Longrightarrow> missing_field (JObj kv) required_fields = Inr None"
  by (simp add: has_required_def required_fields_def)


lemma next_id_fresh: "x \<in> set ids \<Longrightarrow> x < next_id ids"
proof (cases ids)
  case Nil
  then show "x \<in> set ids \<Longrightarrow> x < next_id ids" by simp
next
  case (Cons y ys)
  assume "x \<in> set ids"
  then have "x \<le> Max (set (y # ys))" using Cons by (intro Max_ge) auto
  also have "Max (set (y # ys)) = fold max ys y" by (rule Max.set_eq_fold)
  finally show "x < next_id ids" using Cons by simp
qed

lemma try_insert_rows:
  assumes "try_insert drv (JObj kv) st = Inr (pid, st')"
      and "map_of kv ''initial_quantity'' = None"
  shows "\<exists>product inventory.
           prd_id product = next_id (map prd_id (product_rows st)) \<and> pid = prd_id product \<and>
           ivr_product_id inventory = pid \<and> ivr_quantity inventory = Some 0 \<and>
           st' = \<lparr>product_rows = product_rows st @ [product],
                  inventory_rows = inventory_rows st @ [inventory]\<rparr>"
  using assms
  by (auto simp: try_insert_def flush_product_def commit_inventory_def quantity_param_def
        split: sum.splits option.splits bound.splits if_splits)

lemmas create_eval = create_product_def required_fields_def find_by_sku_def text_param_def
  int_param_def quantity_param_def try_insert_def flush_product_def commit_inventory_def
  demo_driver_def demo_storage_def demo_product_def has_required_def

lemma demo_create:
  "create_product demo_driver (JObj demo_new_request) demo_storage =
     (Created 2, demo_created_storage)"
  by (simp add: create_eval demo_new_request_def demo_created_storage_def)




text \<open>
  Every inventory row the program stores refers to a stored product.
\<close>

lemma create_product_keeps_reference:
  assumes "create_product drv data st = (r, st')"
      and "\<forall>i\<in>set (inventory_rows st). ivr_product_id i \<in> set (map prd_id (product_rows st))"
  shows "\<forall>i\<in>set (inventory_rows st'). ivr_product_id i \<in> set (map prd_id (product_rows st'))"
  using assms
  by (auto simp: create_product_def try_insert_def commit_inventory_def
        split: sum.splits option.splits prod.splits bound.splits)

lemma replay_keeps_reference:
  "\<forall>i\<in>set (inventory_rows st). ivr_product_id i \<in> set (map prd_id (product_rows st)) \<Longrightarrow>
   \<forall>i\<in>set (inventory_rows (replay history st)).
      ivr_product_id i \<in> set (map prd_id (product_rows (replay history st)))"
proof (induction history arbitrary: st)
  case Nil
  then show ?case by simp
next
  case (Cons step rest)
  obtain drv data where step: "step = (drv, data)" by (cases step)
  obtain r st' where c: "create_product drv data st = (r, st')" by (cases "create_product drv data st")
  from create_product_keeps_reference[OF c Cons.prems]
  have "\<forall>i\<in>set (inventory_rows st'). ivr_product_id i \<in> set (map prd_id (product_rows st'))" .
  from Cons.IH[OF this] show ?case by (simp add: step c)
qed

lemma demo_storage_replay:
  "replay [(demo_driver, JObj demo_first_request)] empty_storage = demo_storage"
  by (simp add: create_eval empty_storage_def demo_first_request_def)

text \<open>
  C8. In a storage built by this program, when \<open>initial_quantity\<close> is omitted and the
  answer is 201, the storage then holds exactly one inventory row for the new product,
  with quantity 0, and exactly one product with the new id.
\<close>

theorem created_has_one_inventory_row:
  assumes "map_of kv ''initial_quantity'' = None"
      and "create_product drv (JObj kv) (replay history empty_storage) = (r, st')"
      and "status_code r = 201"
  shows "\<exists>pid row. r = Created pid \<and>
           filter (\<lambda>i. ivr_product_id i = pid) (inventory_rows st') = [row] \<and>
           ivr_quantity row = Some 0 \<and>
           filter (\<lambda>p. prd_id p = pid) (product_rows st') = [last (product_rows st')]"
proof -
  define st where "st = replay history empty_storage"
  have ref: "\<forall>i\<in>set (inventory_rows st). ivr_product_id i \<in> set (map prd_id (product_rows st))"
    unfolding st_def by (rule replay_keeps_reference) (simp add: empty_storage_def)
  from assms(2,3) obtain pid where r: "r = Created pid"
      and ins: "try_insert drv (JObj kv) st = Inr (pid, st')"
    by (cases r) (auto simp: create_product_def st_def split: sum.splits option.splits prod.splits)
  from try_insert_rows[OF ins assms(1)] obtain product inventory where
      p: "prd_id product = next_id (map prd_id (product_rows st))" "pid = prd_id product"
      and i: "ivr_product_id inventory = pid" "ivr_quantity inventory = Some 0"
      and st': "st' = \<lparr>product_rows = product_rows st @ [product],
                        inventory_rows = inventory_rows st @ [inventory]\<rparr>"
    by blast
  have fresh: "\<forall>x\<in>set (map prd_id (product_rows st)). x \<noteq> pid"
    using next_id_fresh p by fastforce
  then have "filter (\<lambda>i. ivr_product_id i = pid) (inventory_rows st) = []"
    using ref by (fastforce simp: filter_empty_conv)
  moreover have "filter (\<lambda>p. prd_id p = pid) (product_rows st) = []"
    using fresh by (auto simp: filter_empty_conv)
  ultimately show ?thesis using r i p st' by simp
qed

theorem created_has_one_inventory_row_witness:
  "map_of demo_new_request ''initial_quantity'' = None \<and>
   replay [(demo_driver, JObj demo_first_request)] empty_storage = demo_storage \<and>
   create_product demo_driver (JObj demo_new_request) demo_storage =
     (Created 2, demo_created_storage) \<and>
   status_code (Created 2) = 201 \<and>
   map ivr_product_id (inventory_rows demo_created_storage) = [1, 2] \<and>
   map ivr_quantity (inventory_rows demo_created_storage) = [Some 4, Some 0] \<and>
   map prd_id (product_rows demo_created_storage) = [1, 2]"
proof -
  have h1: "map_of demo_new_request ''initial_quantity'' = None"
    by (simp add: demo_new_request_def)
  have h2: "create_product demo_driver (JObj demo_new_request)
      (replay [(demo_driver, JObj demo_first_request)] empty_storage) =
      (Created 2, demo_created_storage)"
    by (simp only: demo_storage_replay demo_create)
  have h3: "status_code (Created 2) = 201" by simp
  have d: "map ivr_product_id (inventory_rows demo_created_storage) = [1, 2]"
    "map ivr_quantity (inventory_rows demo_created_storage) = [Some 4, Some 0]"
    "map prd_id (product_rows demo_created_storage) = [1, 2]"
    by (simp_all add: demo_product_def demo_created_storage_def)
  from created_has_one_inventory_row[OF h1 h2 h3] h1 demo_storage_replay demo_create h3 d
  show ?thesis by blast
qed

text \<open>
  C10. A body with all four required keys is never answered 400, whatever their values.
\<close>

theorem validation_checks_presence_only:
  assumes "has_required kv"
  shows "status_code (fst (create_product drv (JObj kv) st)) \<noteq> 400"
  using missing_field_none[OF assms]
  by (auto simp: create_product_def split: sum.splits option.splits prod.splits)

theorem validation_checks_presence_only_witness:
  "map fst demo_null_request = [''name'', ''sku'', ''price'', ''warehouse_id''] \<and>
   status_code (fst (create_product demo_driver (JObj demo_null_request) demo_storage)) \<noteq> 400 \<and>
   create_product demo_driver (JObj demo_null_request) demo_storage =
     (ServerError InvalidOperation, demo_storage)"
proof -
  have h: "has_required demo_null_request"
    by (simp add: has_required_def required_fields_def demo_null_request_def)
  have d: "map fst demo_null_request = [''name'', ''sku'', ''price'', ''warehouse_id'']"
    by (simp add: demo_null_request_def)
  have "create_product demo_driver (JObj demo_null_request) demo_storage =
     (ServerError InvalidOperation, demo_storage)"
    by (simp add: create_eval demo_null_request_def)
  with validation_checks_presence_only[OF h, of demo_driver demo_storage] d show ?thesis by blast
qed

end
